theory Spec2Isabelle
  imports Complex_Main
begin

section \<open>Numbers\<close>

text \<open>
  The scripts compute with Python floats. They are modelled as \<^typ>\<open>real\<close>: every
  constant of the source (\<open>0.35\<close>, \<open>45.0\<close>, \<open>111.0\<close>) is read as the decimal fraction
  it is written as, and \<open>+\<close>, \<open>*\<close>, \<open>/\<close>, \<open>np.sqrt\<close>, \<open>np.cos\<close>, \<open>np.sin\<close> are the exact
  operations. Rounding errors of the binary representation are therefore not part of
  the model.

  Python's \<open>round(x, n)\<close> rounds to \<open>n\<close> decimals, a tie going to the even neighbour.
  Python decides a tie on the binary value of the float, the model on the decimal
  value; none of the values evaluated below is a tie.
\<close>

definition round_half_even :: "real \<Rightarrow> int" where
  "round_half_even x =
     (let f = \<lfloor>x\<rfloor>; d = x - of_int f
      in if d < 1 / 2 then f
         else if 1 / 2 < d then f + 1
         else if even f then f else f + 1)"

definition py_round :: "real \<Rightarrow> nat \<Rightarrow> real" where
  "py_round x n = of_int (round_half_even (x * 10 ^ n)) / 10 ^ n"

text \<open>
  \<open>min_distance = float('inf')\<close> followed by
  \<open>for ...: min_distance = min(min_distance, distance)\<close>: the accumulator starts at
  plus infinity, so after the first iteration it is the first distance. Both tables
  this loop runs over are non-empty literals, so the empty case is never reached.
\<close>

fun min_from_inf :: "real list \<Rightarrow> real" where
  "min_from_inf [] = 0"
| "min_from_inf (d # ds) = foldl min d ds"

section \<open>The cost scorer (Scripts/calculate\_india\_lcoh.py)\<close>

text \<open>A feature of the GeoJSON file: its properties and the ring of its polygon.\<close>

record hexagon =
  hex_id :: nat
  center_lat :: real
  center_lon :: real
  wind_potential :: real
  solar_potential :: real
  water_availability :: string
  infrastructure_score :: int
  region :: string
  climate_zone :: string
  elevation :: real
  population_density :: string
  coordinates :: "(real \<times> real) list"

text \<open>The dictionary returned by \<open>calculate_lcoh_for_hexagon\<close>.\<close>

record lcoh =
  total_lcoh :: real
  wind_cost :: real
  solar_cost :: real
  water_cost :: real
  infrastructure_cost :: real
  electrolyzer_cost :: real
  transport_cost :: real
  suitability_score :: real

definition calculate_wind_energy_cost :: "real \<Rightarrow> real \<Rightarrow> real" where
  "calculate_wind_energy_cost wind elev =
     (let capacity_factor =
            (if wind \<ge> 6.0 then 0.35
             else if wind \<ge> 5.0 then 0.28
             else if wind \<ge> 4.0 then 0.20
             else 0.12);
          base_cost = 45.0;
          adjusted_cost = base_cost / capacity_factor;
          elevation_factor = 1.0 + (elev / 1000.0) * 0.1
      in adjusted_cost * elevation_factor)"

definition calculate_solar_energy_cost :: "real \<Rightarrow> real" where
  "calculate_solar_energy_cost solar =
     (let capacity_factor =
            (if solar \<ge> 6.0 then 0.22
             else if solar \<ge> 5.5 then 0.20
             else if solar \<ge> 5.0 then 0.18
             else 0.15);
          base_cost = 35.0;
          adjusted_cost = base_cost / capacity_factor
      in adjusted_cost)"

definition calculate_water_cost :: "string \<Rightarrow> real" where
  "calculate_water_cost w =
     (if w = ''High'' then 0.5
      else if w = ''Medium'' then 1.2
      else 2.5)"

definition calculate_infrastructure_cost :: "int \<Rightarrow> real" where
  "calculate_infrastructure_cost score =
     (if score \<ge> 80 then 0.3
      else if score \<ge> 60 then 0.6
      else if score \<ge> 40 then 1.0
      else 1.8)"

definition calculate_electrolyzer_cost :: real where
  "calculate_electrolyzer_cost = 1.2"

definition demand_centers :: "(real \<times> real \<times> string) list" where
  "demand_centers =
     [(19.0760, 72.8777, ''Mumbai''),
      (28.7041, 77.1025, ''Delhi''),
      (12.9716, 77.5946, ''Bangalore''),
      (13.0827, 80.2707, ''Chennai''),
      (22.5726, 88.3639, ''Kolkata'')]"

definition calculate_transport_cost :: "real \<Rightarrow> real \<Rightarrow> real" where
  "calculate_transport_cost lat lon =
     (let min_distance =
            min_from_inf
              (map (\<lambda>(center_lat, center_lon, _).
                      sqrt ((lat - center_lat)\<^sup>2 + (lon - center_lon)\<^sup>2) * 111.0)
                 demand_centers);
          transport_rate = 0.15
      in (min_distance / 100.0) * transport_rate)"

definition calculate_suitability_score :: "real \<Rightarrow> real \<Rightarrow> real \<Rightarrow> real" where
  "calculate_suitability_score lcoh_v wind solar =
     (let lcoh_score =
            (if lcoh_v \<le> 3.0 then 100
             else if lcoh_v \<le> 4.0 then 85
             else if lcoh_v \<le> 5.0 then 70
             else if lcoh_v \<le> 6.0 then 55
             else 40);
          renewable_score = (wind / 7.0 + solar / 6.5) * 50;
          suitability = lcoh_score * 0.6 + renewable_score * 0.4
      in py_round suitability 1)"

definition categorize_suitability :: "real \<Rightarrow> string" where
  "categorize_suitability s =
     (if s \<ge> 80 then ''Most Suitable''
      else if s \<ge> 60 then ''Moderately Suitable''
      else if s \<ge> 40 then ''Less Suitable''
      else ''Unsuitable'')"

text \<open>
  The weighted sum of \<open>calculate_lcoh_for_hexagon\<close>, before it is rounded. The source
  computes it in a local variable; it is named here because both the stored total and
  the suitability score are computed from it.
\<close>

definition unrounded_total_lcoh :: "hexagon \<Rightarrow> real" where
  "unrounded_total_lcoh h =
     calculate_wind_energy_cost (wind_potential h) (elevation h) * 0.4 +
     calculate_solar_energy_cost (solar_potential h) * 0.6 +
     calculate_water_cost (water_availability h) +
     calculate_infrastructure_cost (infrastructure_score h) +
     calculate_electrolyzer_cost +
     calculate_transport_cost (center_lat h) (center_lon h)"

definition calculate_lcoh_for_hexagon :: "hexagon \<Rightarrow> lcoh" where
  "calculate_lcoh_for_hexagon h =
     (let wind_cost_v = calculate_wind_energy_cost (wind_potential h) (elevation h);
          solar_cost_v = calculate_solar_energy_cost (solar_potential h);
          water_cost_v = calculate_water_cost (water_availability h);
          infrastructure_cost_v = calculate_infrastructure_cost (infrastructure_score h);
          electrolyzer_cost_v = calculate_electrolyzer_cost;
          transport_cost_v = calculate_transport_cost (center_lat h) (center_lon h);
          total_lcoh_v =
            wind_cost_v * 0.4 + solar_cost_v * 0.6 + water_cost_v +
            infrastructure_cost_v + electrolyzer_cost_v + transport_cost_v
      in \<lparr> total_lcoh = py_round total_lcoh_v 2,
           wind_cost = py_round wind_cost_v 2,
           solar_cost = py_round solar_cost_v 2,
           water_cost = py_round water_cost_v 2,
           infrastructure_cost = py_round infrastructure_cost_v 2,
           electrolyzer_cost = py_round electrolyzer_cost_v 2,
           transport_cost = py_round transport_cost_v 2,
           suitability_score =
             calculate_suitability_score total_lcoh_v (wind_potential h) (solar_potential h) \<rparr>)"

section \<open>The grid generator (Scripts/create\_india\_hexagons.py)\<close>

text \<open>
  \<open>np.arange(start, stop, step)\<close> has \<open>ceil((stop - start) / step)\<close> elements
  \<open>start + i * step\<close> (none when that number is not positive) and raises
  \<open>ZeroDivisionError\<close> on a zero step. \<open>np.linspace(start, stop, num)\<close> has \<open>num\<close>
  evenly spaced elements from \<open>start\<close> to \<open>stop\<close>, both included.
\<close>

datatype error = ZeroDivisionError

definition np_arange :: "real \<Rightarrow> real \<Rightarrow> real \<Rightarrow> error + real list" where
  "np_arange start stop step =
     (if step = 0 then Inl ZeroDivisionError
      else Inr (map (\<lambda>i. start + real i * step) [0 ..< nat \<lceil>(stop - start) / step\<rceil>]))"

definition np_linspace :: "real \<Rightarrow> real \<Rightarrow> nat \<Rightarrow> real list" where
  "np_linspace start stop num =
     map (\<lambda>k. start + real k * ((stop - start) / real (num - 1))) [0 ..< num]"

definition radians :: "real \<Rightarrow> real" where
  "radians d = d * pi / 180"

text \<open>
  A vertex is the pair \<open>[new_lon, new_lat]\<close>. Where \<open>cos lat_rad\<close> is zero numpy
  divides to an infinity; HOL's division gives 0 there. No statement below depends on it.
\<close>

definition create_hexagon :: "real \<Rightarrow> real \<Rightarrow> real \<Rightarrow> (real \<times> real) list" where
  "create_hexagon lat lon radius_deg =
     (let angles = butlast (np_linspace 0 (2 * pi) 7)
      in map (\<lambda>angle.
                let lat_rad = radians lat;
                    new_lat = lat + radius_deg * cos angle;
                    new_lon = lon + radius_deg * sin angle / cos lat_rad
                in (new_lon, new_lat))
           angles)"

definition calculate_wind_potential :: "real \<Rightarrow> real \<Rightarrow> real" where
  "calculate_wind_potential lat lon =
     (let coastal_distance =
            min \<bar>lat - 8.0\<bar> (min \<bar>lat - 22.0\<bar> (min \<bar>lat - 12.0\<bar>
              (min \<bar>lon - 72.0\<bar> \<bar>lon - 80.0\<bar>)));
          base_wind =
            (if coastal_distance < 2.0 then 6.5
             else if coastal_distance < 5.0 then 5.5
             else 4.0);
          monsoon_factor = (if lat > 15 \<and> lat < 25 then 1.2 else 1.0);
          terrain_factor = (if lat > 20 \<and> lat < 30 then 1.1 else 1.0)
      in py_round (base_wind * monsoon_factor * terrain_factor) 2)"

definition calculate_solar_potential :: "real \<Rightarrow> real \<Rightarrow> real" where
  "calculate_solar_potential lat lon =
     (let northwest_distance = sqrt ((lat - 28.0)\<^sup>2 + (lon - 75.0)\<^sup>2);
          base_solar =
            (if northwest_distance < 5.0 then 6.2
             else if northwest_distance < 10.0 then 5.8
             else 5.2);
          lat_factor = 1.0 + (25.0 - lat) * 0.02;
          climate_factor = (if northwest_distance < 8.0 then 1.1 else 1.0)
      in py_round (base_solar * lat_factor * climate_factor) 2)"

definition calculate_water_availability :: "real \<Rightarrow> real \<Rightarrow> string" where
  "calculate_water_availability lat lon =
     (if lat > 20 \<and> lat < 30 \<and> lon > 70 \<and> lon < 85 then ''High''
      else if lat > 10 \<and> lat < 20 \<and> lon > 70 \<and> lon < 80 then ''High''
      else if lat > 20 \<and> lat < 30 \<and> lon > 85 \<and> lon < 95 then ''High''
      else if lat > 15 \<and> lat < 25 \<and> lon > 75 \<and> lon < 85 then ''Medium''
      else ''Low'')"

definition major_cities :: "(real \<times> real) list" where
  "major_cities =
     [(19.0760, 72.8777), (28.7041, 77.1025), (12.9716, 77.5946),
      (13.0827, 80.2707), (22.5726, 88.3639), (17.3850, 78.4867),
      (23.0225, 72.5714), (26.8467, 80.9462), (25.2048, 55.2708)]"

definition calculate_infrastructure_score :: "real \<Rightarrow> real \<Rightarrow> int" where
  "calculate_infrastructure_score lat lon =
     (let min_distance =
            min_from_inf
              (map (\<lambda>(city_lat, city_lon). sqrt ((lat - city_lat)\<^sup>2 + (lon - city_lon)\<^sup>2))
                 major_cities)
      in if min_distance < 1.0 then 90
         else if min_distance < 3.0 then 75
         else if min_distance < 8.0 then 60
         else if min_distance < 15.0 then 40
         else 20)"

definition get_india_region :: "real \<Rightarrow> real \<Rightarrow> string" where
  "get_india_region lat lon =
     (if lat > 30 then ''Northern Mountains''
      else if lat > 25 then ''Northern Plains''
      else if lat > 20 then ''Central India''
      else if lat > 15 then ''Southern Plateau''
      else if lat > 10 then ''Southern Coast''
      else ''Islands'')"

definition get_climate_zone :: "real \<Rightarrow> real \<Rightarrow> string" where
  "get_climate_zone lat lon =
     (if lat > 25 \<and> lon < 80 then ''Desert''
      else if lat > 20 \<and> lat < 25 then ''Tropical Savanna''
      else if lat < 20 then ''Tropical Monsoon''
      else if lat > 25 \<and> lon > 85 then ''Subtropical Humid''
      else ''Temperate'')"

definition get_elevation_estimate :: "real \<Rightarrow> real \<Rightarrow> real" where
  "get_elevation_estimate lat lon =
     (if lat > 30 then 3000
      else if lat > 25 \<and> lon < 75 then 200
      else if lat < 20 then 500
      else 100)"

definition urban_centers :: "(real \<times> real) list" where
  "urban_centers =
     [(19.0760, 72.8777), (28.7041, 77.1025), (12.9716, 77.5946),
      (13.0827, 80.2707), (22.5726, 88.3639)]"

definition get_population_density :: "real \<Rightarrow> real \<Rightarrow> string" where
  "get_population_density lat lon =
     (if list_ex (\<lambda>(city_lat, city_lon).
                    sqrt ((lat - city_lat)\<^sup>2 + (lon - city_lon)\<^sup>2) < 0.5) urban_centers
      then ''Very High''
      else if lat > 20 \<and> lat < 30 \<and> lon > 70 \<and> lon < 85 then ''High''
      else if lat < 20 then ''Medium''
      else ''Low'')"

text \<open>
  The body of the nested loop builds \<open>hexagon_data\<close> from the running \<open>hex_id\<close> and the
  grid point, appends it and increments \<open>hex_id\<close>. The loop state is the pair of the
  list \<open>hexagons\<close> and the counter \<open>hex_id\<close>.
\<close>

definition hexagon_data :: "nat \<Rightarrow> real \<Rightarrow> real \<Rightarrow> real \<Rightarrow> hexagon" where
  "hexagon_data hid lat lon lat_step =
     \<lparr> hex_id = hid,
       center_lat = lat,
       center_lon = lon,
       wind_potential = calculate_wind_potential lat lon,
       solar_potential = calculate_solar_potential lat lon,
       water_availability = calculate_water_availability lat lon,
       infrastructure_score = calculate_infrastructure_score lat lon,
       region = get_india_region lat lon,
       climate_zone = get_climate_zone lat lon,
       elevation = get_elevation_estimate lat lon,
       population_density = get_population_density lat lon,
       coordinates = create_hexagon lat lon (lat_step / 2) \<rparr>"

type_synonym gen_state = "hexagon list \<times> nat"

fun lon_body :: "real \<Rightarrow> real \<Rightarrow> gen_state \<Rightarrow> real \<Rightarrow> gen_state" where
  "lon_body lat_step lat (hexagons, hid) lon =
     (hexagons @ [hexagon_data hid lat lon lat_step], hid + 1)"

definition lat_body :: "real \<Rightarrow> real list \<Rightarrow> gen_state \<Rightarrow> real \<Rightarrow> gen_state" where
  "lat_body lat_step lons st lat = foldl (lon_body lat_step lat) st lons"

definition create_india_hexagons :: "real \<Rightarrow> error + hexagon list" where
  "create_india_hexagons resolution_km =
     (let lat_min = 6.0; lat_max = 37.0;
          lon_min = 68.0; lon_max = 97.0;
          lat_step = resolution_km / 111.0;
          lon_step = resolution_km / (111.0 * cos (radians ((lat_min + lat_max) / 2)))
      in case np_arange lat_min (lat_max + lat_step) lat_step of
           Inl e \<Rightarrow> Inl e
         | Inr lats \<Rightarrow>
             (case np_arange lon_min (lon_max + lon_step) lon_step of
                Inl e \<Rightarrow> Inl e
              | Inr lons \<Rightarrow> Inr (fst (foldl (lat_body lat_step lons) ([], 0) lats))))"

section \<open>The second generator (Scripts/fix\_hexagons.py)\<close>





definition closed_hex_coords :: "real \<Rightarrow> real \<Rightarrow> real \<Rightarrow> (real \<times> real) list" where
  "closed_hex_coords hex_size lat lon =
     (let hex_coords =
            map (\<lambda>i. let angle = real i * 60;
                         dx = hex_size * 0.5 * cos (radians angle);
                         dy = hex_size * 0.5 * sin (radians angle)
                     in (lon + dx, lat + dy))
              [0 ..< 6]
      in if hd hex_coords \<noteq> last hex_coords then hex_coords @ [hd hex_coords]
         else hex_coords)"




section \<open>Derived definitions used in the statements\<close>

text \<open>
  The local variables \<open>lats\<close> and \<open>lons\<close> of \<open>create_india_hexagons\<close> (the two
  \<open>np.arange\<close> calls), named so that statements can refer to the grid.
\<close>

definition india_lats :: "real \<Rightarrow> error + real list" where
  "india_lats resolution_km =
     (let lat_min = 6.0; lat_max = 37.0; lat_step = resolution_km / 111.0
      in np_arange lat_min (lat_max + lat_step) lat_step)"

definition india_lons :: "real \<Rightarrow> error + real list" where
  "india_lons resolution_km =
     (let lat_min = 6.0; lat_max = 37.0; lon_min = 68.0; lon_max = 97.0;
          lon_step = resolution_km / (111.0 * cos (radians ((lat_min + lat_max) / 2)))
      in np_arange lon_min (lon_max + lon_step) lon_step)"

text \<open>
  Row-major enumeration of a grid: the first list is the outer loop, the second the
  inner loop.
\<close>

definition row_major :: "'a list \<Rightarrow> 'b list \<Rightarrow> ('a \<times> 'b) list" where
  "row_major xs ys = concat (map (\<lambda>x. map (\<lambda>y. (x, y)) ys) xs)"

text \<open>The cells built from a list of grid points, numbered from \<open>k\<close> on.\<close>

definition numbered_cells :: "real \<Rightarrow> nat \<Rightarrow> (real \<times> real) list \<Rightarrow> hexagon list" where
  "numbered_cells lat_step k ps =
     map (\<lambda>(j, (lat, lon)). hexagon_data j lat lon lat_step) (enumerate k ps)"


text \<open>
  The weighted sum of the six stored components of a cost breakdown, as the
  specification writes it.
\<close>

definition weighted_component_sum :: "lcoh \<Rightarrow> real" where
  "weighted_component_sum r =
     0.4 * wind_cost r + 0.6 * solar_cost r + water_cost r + infrastructure_cost r +
     electrolyzer_cost r + transport_cost r"

text \<open>
  The wind cost as the specification words it: a capacity factor from thresholds on
  the wind potential, 45.0 divided by it, scaled by the elevation factor.
\<close>

definition wind_capacity_factor_spec :: "real \<Rightarrow> real" where
  "wind_capacity_factor_spec wind =
     (if wind \<ge> 6.0 then 0.35 else if wind \<ge> 5.0 then 0.28
      else if wind \<ge> 4.0 then 0.20 else 0.12)"

definition wind_cost_spec :: "real \<Rightarrow> real \<Rightarrow> real" where
  "wind_cost_spec wind elev =
     45.0 / wind_capacity_factor_spec wind * (1.0 + (elev / 1000.0) * 0.1)"

text \<open>
  The suitability score as the specification words it: a step function of the total
  cost and a renewable score, blended 0.6 to 0.4 (before the source rounds it).
\<close>

definition lcoh_score_spec :: "real \<Rightarrow> real" where
  "lcoh_score_spec lcoh_v =
     (if lcoh_v \<le> 3.0 then 100 else if lcoh_v \<le> 4.0 then 85
      else if lcoh_v \<le> 5.0 then 70 else if lcoh_v \<le> 6.0 then 55 else 40)"

definition suitability_spec :: "real \<Rightarrow> real \<Rightarrow> real \<Rightarrow> real" where
  "suitability_spec lcoh_v wind solar =
     lcoh_score_spec lcoh_v * 0.6 + ((wind / 7.0 + solar / 6.5) * 50) * 0.4"

text \<open>
  The cell the generator's formulas give at Mumbai's coordinates (19.0760, 72.8777),
  the point of the specification's own transport example.
\<close>

definition mumbai_cell :: hexagon where
  "mumbai_cell = hexagon_data 0 19.0760 72.8777 (50 / 111.0)"






section \<open>Auxiliary facts\<close>

subsection \<open>Rounding\<close>

lemma round_half_even_lower: "x - 1 / 2 \<le> of_int (round_half_even x)"
  unfolding round_half_even_def Let_def by (simp; linarith)

lemma round_half_even_upper: "of_int (round_half_even x) \<le> x + 1 / 2"
  unfolding round_half_even_def Let_def by (simp; linarith)

lemma round_half_even_of_int: "round_half_even (of_int k) = k"
  unfolding round_half_even_def Let_def by simp

lemma round_half_even_mono:
  assumes "x \<le> y"
  shows "round_half_even x \<le> round_half_even y"
proof (cases "\<lfloor>x\<rfloor> = \<lfloor>y\<rfloor>")
  case True
  with assms show ?thesis
    unfolding round_half_even_def Let_def by (simp; linarith)
next
  case False
  from assms have "\<lfloor>x\<rfloor> \<le> \<lfloor>y\<rfloor>" by (rule floor_mono)
  with False have lt: "\<lfloor>x\<rfloor> + 1 \<le> \<lfloor>y\<rfloor>" by simp
  have "round_half_even x \<le> \<lfloor>x\<rfloor> + 1"
    unfolding round_half_even_def Let_def by simp
  moreover have "\<lfloor>y\<rfloor> \<le> round_half_even y"
    unfolding round_half_even_def Let_def by simp
  ultimately show ?thesis using lt by linarith
qed

lemma py_round_mono: "x \<le> y \<Longrightarrow> py_round x n \<le> py_round y n"
  unfolding py_round_def
  by (intro divide_right_mono of_int_le_iff[THEN iffD2] round_half_even_mono mult_right_mono) simp_all

lemma py_round_exact: "py_round (of_int k / 10 ^ n) n = of_int k / 10 ^ n"
  unfolding py_round_def by (simp add: round_half_even_of_int)

lemma py_round_error: "\<bar>py_round x n - x\<bar> \<le> 1 / (2 * 10 ^ n)"
proof -
  define p :: real where "p = 10 ^ n"
  have p: "0 < p" by (simp add: p_def)
  define e where "e = real_of_int (round_half_even (x * p)) - x * p"
  have e: "\<bar>e\<bar> \<le> 1 / 2"
    using round_half_even_lower [of "x * p"] round_half_even_upper [of "x * p"]
    unfolding e_def by linarith
  have "py_round x n - x = e / p"
    using p unfolding py_round_def e_def p_def [symmetric] by (simp add: field_simps)
  then have "\<bar>py_round x n - x\<bar> = \<bar>e\<bar> / p" using p by simp
  also have "\<dots> \<le> (1 / 2) / p" using e p by (rule divide_right_mono[OF _ less_imp_le])
  finally show ?thesis unfolding p_def by simp
qed



subsection \<open>Minimum distances\<close>

lemma foldl_min_ge: "c \<le> d \<Longrightarrow> \<forall>x\<in>set ds. c \<le> x \<Longrightarrow> c \<le> foldl min d (ds :: real list)"
  by (induction ds arbitrary: d) simp_all

lemma foldl_min_le: "foldl min d (ds :: real list) \<le> d"
proof (induction ds arbitrary: d)
  case Nil
  show ?case by simp
next
  case (Cons x xs)
  have "foldl min (min d x) xs \<le> min d x" by (rule Cons.IH)
  then show ?case by simp
qed

lemma calculate_transport_cost_nonneg: "0 \<le> calculate_transport_cost lat lon"
proof -
  have "0 \<le> min_from_inf (map (\<lambda>(center_lat, center_lon, _).
                      sqrt ((lat - center_lat)\<^sup>2 + (lon - center_lon)\<^sup>2) * 111.0)
                 demand_centers)"
    unfolding demand_centers_def by (simp add: foldl_min_ge)
  then show ?thesis unfolding calculate_transport_cost_def Let_def by simp
qed

lemma calculate_transport_cost_le_first:
  "calculate_transport_cost lat lon \<le>
     sqrt ((lat - 19.0760)\<^sup>2 + (lon - 72.8777)\<^sup>2) * 111.0 / 100.0 * 0.15"
  unfolding calculate_transport_cost_def Let_def demand_centers_def
  using foldl_min_le [of "sqrt ((lat - 19.0760)\<^sup>2 + (lon - 72.8777)\<^sup>2) * 111.0"]
  by simp

lemma infrastructure_min_le_first:
  "min_from_inf
     (map (\<lambda>(city_lat, city_lon). sqrt ((lat - city_lat)\<^sup>2 + (lon - city_lon)\<^sup>2))
        major_cities) \<le> sqrt ((lat - 19.0760)\<^sup>2 + (lon - 72.8777)\<^sup>2)"
  unfolding major_cities_def
  by (simp only: list.map prod.case min_from_inf.simps foldl_min_le)

subsection \<open>Cost components\<close>

lemma py_round_water: "py_round (calculate_water_cost w) 2 = calculate_water_cost w"
  unfolding calculate_water_cost_def
  using py_round_exact [of 50 2] py_round_exact [of 120 2] py_round_exact [of 250 2]
  by simp

lemma py_round_infrastructure:
  "py_round (calculate_infrastructure_cost s) 2 = calculate_infrastructure_cost s"
  unfolding calculate_infrastructure_cost_def
  using py_round_exact [of 30 2] py_round_exact [of 60 2] py_round_exact [of 100 2]
    py_round_exact [of 180 2]
  by simp

lemma py_round_electrolyzer:
  "py_round calculate_electrolyzer_cost 2 = calculate_electrolyzer_cost"
  unfolding calculate_electrolyzer_cost_def using py_round_exact [of 120 2] by simp

lemma lcoh_fields:
  "total_lcoh (calculate_lcoh_for_hexagon h) = py_round (unrounded_total_lcoh h) 2"
  "wind_cost (calculate_lcoh_for_hexagon h) =
     py_round (calculate_wind_energy_cost (wind_potential h) (elevation h)) 2"
  "solar_cost (calculate_lcoh_for_hexagon h) =
     py_round (calculate_solar_energy_cost (solar_potential h)) 2"
  "water_cost (calculate_lcoh_for_hexagon h) = calculate_water_cost (water_availability h)"
  "infrastructure_cost (calculate_lcoh_for_hexagon h) =
     calculate_infrastructure_cost (infrastructure_score h)"
  "electrolyzer_cost (calculate_lcoh_for_hexagon h) = calculate_electrolyzer_cost"
  "transport_cost (calculate_lcoh_for_hexagon h) =
     py_round (calculate_transport_cost (center_lat h) (center_lon h)) 2"
  "suitability_score (calculate_lcoh_for_hexagon h) =
     calculate_suitability_score (unrounded_total_lcoh h) (wind_potential h) (solar_potential h)"
  unfolding calculate_lcoh_for_hexagon_def unrounded_total_lcoh_def Let_def
  by (simp_all add: py_round_water py_round_infrastructure py_round_electrolyzer)



lemma calculate_suitability_score_mono:
  "lcoh1 \<le> lcoh2 \<Longrightarrow>
   calculate_suitability_score lcoh2 wind solar \<le> calculate_suitability_score lcoh1 wind solar"
  unfolding calculate_suitability_score_def Let_def
  by (intro py_round_mono) auto

lemma calculate_suitability_score_spec:
  "calculate_suitability_score T w s = py_round (suitability_spec T w s) 1"
  unfolding calculate_suitability_score_def suitability_spec_def lcoh_score_spec_def Let_def
  by simp


lemma lcoh_score_spec_antimono: "a \<le> b \<Longrightarrow> lcoh_score_spec b \<le> lcoh_score_spec a"
  unfolding lcoh_score_spec_def by simp


subsection \<open>Derived attributes\<close>





lemma wind_potential_first: "calculate_wind_potential 6 68 = 5.5"
  unfolding calculate_wind_potential_def Let_def
  using py_round_exact [of 550 2] by simp

subsection \<open>The cell at Mumbai\<close>

lemma transport_mumbai: "calculate_transport_cost 19.0760 72.8777 = 0"
  using calculate_transport_cost_le_first [of "19.0760" "72.8777"]
    calculate_transport_cost_nonneg [of "19.0760" "72.8777"]
  by simp

lemma mumbai_wind: "calculate_wind_potential 19.0760 72.8777 = 7.8"
  unfolding calculate_wind_potential_def Let_def
  using py_round_exact [of 780 2] by simp

lemma mumbai_solar: "calculate_solar_potential 19.0760 72.8777 = 6.49"
proof -
  define nd :: real where "nd = sqrt ((19.0760 - 28.0)\<^sup>2 + (72.8777 - 75.0)\<^sup>2)"
  have lo: "8 \<le> nd" unfolding nd_def by (rule real_le_rsqrt) (simp add: power2_eq_square)
  have hi: "nd < 10" unfolding nd_def by (rule real_less_lsqrt) (simp_all add: power2_eq_square)
  have "calculate_solar_potential 19.0760 72.8777 =
      py_round ((if nd < 5.0 then 6.2 else if nd < 10.0 then 5.8 else 5.2) *
                (1.0 + (25.0 - 19.0760) * 0.02) * (if nd < 8.0 then 1.1 else 1.0)) 2"
    unfolding calculate_solar_potential_def Let_def nd_def by (rule refl)
  also have "\<dots> = py_round (5.8 * (1.0 + (25.0 - 19.0760) * 0.02) * 1.0) 2"
    using lo hi by simp
  also have "\<dots> = 6.49"
    by (simp add: py_round_def round_half_even_def Let_def)
  finally show ?thesis .
qed

lemma mumbai_infrastructure: "calculate_infrastructure_score 19.0760 72.8777 = 90"
proof -
  define m where "m = min_from_inf
     (map (\<lambda>(city_lat, city_lon). sqrt ((19.0760 - city_lat)\<^sup>2 + (72.8777 - city_lon)\<^sup>2))
        major_cities)"
  have "m \<le> sqrt ((19.0760 - 19.0760)\<^sup>2 + (72.8777 - 72.8777)\<^sup>2)"
    unfolding m_def by (rule infrastructure_min_le_first)
  then have m: "m < 1" by simp
  have "calculate_infrastructure_score 19.0760 72.8777 =
      (if m < 1.0 then 90 else if m < 3.0 then 75 else if m < 8.0 then 60
       else if m < 15.0 then 40 else 20)"
    unfolding calculate_infrastructure_score_def Let_def m_def by (rule refl)
  then show ?thesis using m by simp
qed

lemma mumbai_cell_attributes:
  "wind_potential mumbai_cell = 7.8" "solar_potential mumbai_cell = 6.49"
  "water_availability mumbai_cell = ''High''" "infrastructure_score mumbai_cell = 90"
  "elevation mumbai_cell = 500" "center_lat mumbai_cell = 19.0760" "center_lon mumbai_cell = 72.8777"
  unfolding mumbai_cell_def hexagon_data_def
  using mumbai_wind mumbai_solar mumbai_infrastructure
  by (simp_all add: calculate_water_availability_def get_elevation_estimate_def)

subsection \<open>The grid and the loop of the generator\<close>

lemma np_arange_Inr:
  "step \<noteq> 0 \<Longrightarrow> np_arange start stop step =
     Inr (map (\<lambda>i. start + real i * step) [0 ..< nat \<lceil>(stop - start) / step\<rceil>])"
  by (simp add: np_arange_def)

lemma np_arange_first:
  assumes "step \<noteq> 0" "0 < (stop - start) / step"
  shows "\<exists>rest. np_arange start stop step = Inr (start # rest)"
proof -
  have "0 < \<lceil>(stop - start) / step\<rceil>" using assms(2) by simp
  then have "0 < nat \<lceil>(stop - start) / step\<rceil>" by simp
  then have "[0 ..< nat \<lceil>(stop - start) / step\<rceil>] =
      0 # [Suc 0 ..< nat \<lceil>(stop - start) / step\<rceil>]"
    by (rule upt_conv_Cons)
  then show ?thesis unfolding np_arange_Inr [OF assms(1)] by simp
qed


lemma numbered_cells_Nil: "numbered_cells st k [] = []"
  by (simp add: numbered_cells_def)

lemma numbered_cells_Cons:
  "numbered_cells st k ((lat, lon) # ps) = hexagon_data k lat lon st # numbered_cells st (Suc k) ps"
  by (simp add: numbered_cells_def)

lemma numbered_cells_append:
  "numbered_cells st k (ps @ qs) = numbered_cells st k ps @ numbered_cells st (k + length ps) qs"
  by (simp add: numbered_cells_def enumerate_append_eq)

lemma row_major_Nil: "row_major [] ys = []"
  by (simp add: row_major_def)

lemma row_major_Cons: "row_major (x # xs) ys = map (\<lambda>y. (x, y)) ys @ row_major xs ys"
  by (simp add: row_major_def)


lemma set_row_major: "set (row_major xs ys) = set xs \<times> set ys"
  by (auto simp: row_major_def)

lemma foldl_lon_body:
  "foldl (lon_body st lat) (hs, k) lons =
     (hs @ numbered_cells st k (map (\<lambda>lon. (lat, lon)) lons), k + length lons)"
proof (induction lons arbitrary: hs k)
  case Nil
  show ?case by (simp add: numbered_cells_Nil)
next
  case (Cons lon lons)
  show ?case by (simp add: Cons.IH numbered_cells_Cons)
qed

lemma foldl_lat_body:
  "foldl (lat_body st lons) (hs, k) lats =
     (hs @ numbered_cells st k (row_major lats lons), k + length lats * length lons)"
proof (induction lats arbitrary: hs k)
  case Nil
  show ?case by (simp add: numbered_cells_Nil row_major_Nil)
next
  case (Cons lat lats)
  have row: "lat_body st lons (hs, k) lat =
      (hs @ numbered_cells st k (map (\<lambda>lon. (lat, lon)) lons), k + length lons)"
    unfolding lat_body_def by (rule foldl_lon_body)
  have "foldl (lat_body st lons) (hs, k) (lat # lats) =
      foldl (lat_body st lons) (lat_body st lons (hs, k) lat) lats"
    by simp
  also have "\<dots> = ((hs @ numbered_cells st k (map (\<lambda>lon. (lat, lon)) lons)) @
        numbered_cells st (k + length lons) (row_major lats lons),
      (k + length lons) + length lats * length lons)"
    unfolding row by (rule Cons.IH)
  also have "\<dots> = (hs @ numbered_cells st k (row_major (lat # lats) lons),
      k + length (lat # lats) * length lons)"
    by (simp add: row_major_Cons numbered_cells_append)
  finally show ?case .
qed

lemma create_india_hexagons_eq:
  "create_india_hexagons res =
     (case india_lats res of
        Inl e \<Rightarrow> Inl e
      | Inr lats \<Rightarrow>
          (case india_lons res of
             Inl e \<Rightarrow> Inl e
           | Inr lons \<Rightarrow> Inr (numbered_cells (res / 111.0) 0 (row_major lats lons))))"
  unfolding create_india_hexagons_def india_lats_def india_lons_def Let_def
  by (simp add: foldl_lat_body split: sum.splits)

lemma upt_shift_Cons: "[k ..< k + Suc n] = k # [Suc k ..< Suc k + n]"
  by (simp add: upt_conv_Cons)

lemma map_hex_id_numbered: "map hex_id (numbered_cells st k ps) = [k ..< k + length ps]"
proof (induction ps arbitrary: k)
  case Nil
  show ?case by (simp add: numbered_cells_Nil)
next
  case (Cons p ps)
  obtain lat lon where p: "p = (lat, lon)" by (cases p)
  have "map hex_id (numbered_cells st k (p # ps)) = k # [Suc k ..< Suc k + length ps]"
    unfolding p by (simp add: numbered_cells_Cons Cons.IH hexagon_data_def)
  then show ?case using upt_shift_Cons [of k "length ps"] by simp
qed

lemma length_numbered_cells: "length (numbered_cells st k ps) = length ps"
  by (simp add: numbered_cells_def)

lemma map_center_numbered:
  "map (\<lambda>h. (center_lat h, center_lon h)) (numbered_cells st k ps) = ps"
proof (induction ps arbitrary: k)
  case Nil
  show ?case by (simp add: numbered_cells_Nil)
next
  case (Cons p ps)
  obtain lat lon where p: "p = (lat, lon)" by (cases p)
  show ?case unfolding p by (simp add: numbered_cells_Cons Cons.IH hexagon_data_def)
qed

lemma numbered_cells_member:
  assumes "h \<in> set (numbered_cells st k ps)"
  shows "\<exists>j lat lon. h = hexagon_data j lat lon st \<and> (lat, lon) \<in> set ps"
  using assms
proof (induction ps arbitrary: k)
  case Nil
  then show ?case by (simp add: numbered_cells_Nil)
next
  case (Cons p ps)
  obtain lat lon where p: "p = (lat, lon)" by (cases p)
  from Cons.prems have "h = hexagon_data k lat lon st \<or> h \<in> set (numbered_cells st (Suc k) ps)"
    unfolding p by (simp add: numbered_cells_Cons)
  then show ?case
  proof
    assume "h = hexagon_data k lat lon st"
    then show ?thesis unfolding p by auto
  next
    assume "h \<in> set (numbered_cells st (Suc k) ps)"
    from Cons.IH [OF this] show ?thesis by auto
  qed
qed

lemma cos_mid_latitude_pos: "0 < cos (radians ((6.0 + 37.0) / 2))"
proof -
  have "- (pi / 2) < radians ((6.0 + 37.0) / 2)" "radians ((6.0 + 37.0) / 2) < pi / 2"
    unfolding radians_def using pi_gt_zero by simp_all
  then show ?thesis by (rule cos_gt_zero_pi)
qed

lemma india_lats_Inr:
  "res \<noteq> 0 \<Longrightarrow> india_lats res =
     Inr (map (\<lambda>i. 6 + real i * (res / 111)) [0 ..< nat \<lceil>(31 + res / 111) / (res / 111)\<rceil>])"
  unfolding india_lats_def np_arange_def Let_def by simp

lemma india_lats_zero: "india_lats 0 = Inl ZeroDivisionError"
  unfolding india_lats_def np_arange_def Let_def by simp

lemma india_lons_Inr:
  assumes "res \<noteq> 0"
  shows "\<exists>lons. india_lons res = Inr lons"
proof -
  have "res / (111.0 * cos (radians ((6.0 + 37.0) / 2))) \<noteq> 0"
    using assms cos_mid_latitude_pos by simp
  then show ?thesis unfolding india_lons_def np_arange_def Let_def by simp
qed

lemma create_india_hexagons_total:
  "res \<noteq> 0 \<Longrightarrow> \<exists>hs. create_india_hexagons res = Inr hs"
  using india_lons_Inr [of res] india_lats_Inr [of res]
  by (auto simp: create_india_hexagons_eq)

lemma create_india_hexagons_zero: "create_india_hexagons 0 = Inl ZeroDivisionError"
  by (simp add: create_india_hexagons_eq india_lats_zero)


lemma create_india_hexagons_member:
  assumes "create_india_hexagons res = Inr hs" "h \<in> set hs"
  shows "\<exists>lats lons j lat lon. india_lats res = Inr lats \<and> india_lons res = Inr lons \<and>
           h = hexagon_data j lat lon (res / 111) \<and> lat \<in> set lats \<and> lon \<in> set lons"
proof -
  from assms(1) obtain lats lons where l: "india_lats res = Inr lats" "india_lons res = Inr lons"
    and hs: "hs = numbered_cells (res / 111) 0 (row_major lats lons)"
    unfolding create_india_hexagons_eq by (auto split: sum.splits)
  from numbered_cells_member [OF assms(2) [unfolded hs]] obtain j lat lon
    where "h = hexagon_data j lat lon (res / 111)" "(lat, lon) \<in> set (row_major lats lons)"
    by blast
  then show ?thesis using l by (auto simp: set_row_major)
qed

lemma create_india_hexagons_first:
  assumes "0 < res"
  shows "\<exists>rest. create_india_hexagons res = Inr (hexagon_data 0 6 68 (res / 111) # rest)"
proof -
  have "res / 111 \<noteq> 0" "0 < (37 + res / 111 - 6) / (res / 111)" using assms by simp_all
  from np_arange_first [OF this] obtain lats where lats: "india_lats res = Inr (6 # lats)"
    unfolding india_lats_def Let_def by auto
  define ls where "ls = res / (111.0 * cos (radians ((6.0 + 37.0) / 2)))"
  have "0 < ls" unfolding ls_def using assms cos_mid_latitude_pos by simp
  then have "ls \<noteq> 0" "0 < (97 + ls - 68) / ls" by simp_all
  from np_arange_first [OF this] obtain lons where lons: "india_lons res = Inr (68 # lons)"
    unfolding india_lons_def Let_def ls_def by auto
  show ?thesis unfolding create_india_hexagons_eq lats lons
    by (simp add: row_major_Cons numbered_cells_Cons)
qed

lemma india_lats_50:
  "india_lats 50 = Inr (map (\<lambda>i. 6 + real i * (50 / 111)) [0 ..< 70])"
proof -
  have "\<lceil>(37 + 50 / 111 - 6) / (50 / 111) :: real\<rceil> = 70" by (simp add: ceiling_unique)
  then show ?thesis unfolding india_lats_def Let_def np_arange_def by simp
qed

subsection \<open>Hexagon rings\<close>

lemma butlast_upt_Suc: "butlast [0 ..< Suc n] = [0 ..< n]"
  by simp

lemma hexagon_angles:
  "butlast (np_linspace 0 (2 * pi) 7) = map (\<lambda>k. real k * (2 * pi / 6)) [0 ..< 6]"
proof -
  have "np_linspace 0 (2 * pi) 7 = map (\<lambda>k. real k * (2 * pi / 6)) [0 ..< Suc 6]"
    unfolding np_linspace_def by simp
  then have "butlast (np_linspace 0 (2 * pi) 7) =
      map (\<lambda>k. real k * (2 * pi / 6)) (butlast [0 ..< Suc 6])"
    by (simp only: map_butlast)
  then show ?thesis by (simp only: butlast_upt_Suc)
qed

lemma upt_6: "[0 ..< 6] = [0, 1, 2, 3, 4, 5::nat]"
  by (simp add: upt_rec)

lemma length_create_hexagon: "length (create_hexagon lat lon r) = 6"
  unfolding create_hexagon_def Let_def hexagon_angles by simp

lemma cos_5pi3: "cos (5 * (2 * pi / 6)) = 1 / 2"
proof -
  have "5 * (2 * pi / 6) = 2 * pi - pi / 3" by simp
  then have "cos (5 * (2 * pi / 6)) = cos (pi / 3)" by (simp only: cos_2pi_minus)
  then show ?thesis by (simp add: cos_60)
qed

lemma create_hexagon_ends:
  "snd (hd (create_hexagon lat lon r)) = lat + r \<and>
   snd (last (create_hexagon lat lon r)) = lat + r / 2"
  unfolding create_hexagon_def Let_def hexagon_angles upt_6
  using cos_5pi3 by simp

lemma create_hexagon_open:
  "r \<noteq> 0 \<Longrightarrow> hd (create_hexagon lat lon r) \<noteq> last (create_hexagon lat lon r)"
proof
  assume r: "r \<noteq> 0" and eq: "hd (create_hexagon lat lon r) = last (create_hexagon lat lon r)"
  from eq have "snd (hd (create_hexagon lat lon r)) = snd (last (create_hexagon lat lon r))"
    by simp
  then have "lat + r = lat + r / 2" using create_hexagon_ends [of lat lon r] by simp
  with r show False by simp
qed

lemma closed_hex_coords_ring:
  assumes "hex_size \<noteq> 0"
  shows "length (closed_hex_coords hex_size lat lon) = 7 \<and>
         hd (closed_hex_coords hex_size lat lon) = last (closed_hex_coords hex_size lat lon)"
proof -
  define cs where "cs = map (\<lambda>i. let angle = real i * 60;
                         dx = hex_size * 0.5 * cos (radians angle);
                         dy = hex_size * 0.5 * sin (radians angle)
                     in (lon + dx, lat + dy))
              [0 ..< 6]"
  have len: "length cs = 6" unfolding cs_def by simp
  have "radians 300 = 5 * (2 * pi / 6)" unfolding radians_def by simp
  then have c5: "cos (radians 300) = 1 / 2" by (simp only: cos_5pi3)
  have c0: "cos (radians 0) = 1" unfolding radians_def by simp
  have "fst (hd cs) = lon + hex_size * 0.5" "fst (last cs) = lon + hex_size * 0.5 * (1 / 2)"
    unfolding cs_def upt_6 Let_def using c0 c5 by simp_all
  then have ne: "hd cs \<noteq> last cs" using assms by auto
  have "closed_hex_coords hex_size lat lon = (if hd cs \<noteq> last cs then cs @ [hd cs] else cs)"
    unfolding closed_hex_coords_def cs_def Let_def by (rule refl)
  then have "closed_hex_coords hex_size lat lon = cs @ [hd cs]"
    using ne by simp
  moreover have "cs \<noteq> []" using len by auto
  ultimately show ?thesis using len by simp
qed

subsection \<open>The loop of the second generator\<close>






subsection \<open>Costs of the cell at Mumbai\<close>

lemma mumbai_unrounded: "unrounded_total_lcoh mumbai_cell = 16660 / 110"
  unfolding unrounded_total_lcoh_def mumbai_cell_attributes
  using transport_mumbai
  by (simp add: calculate_wind_energy_cost_def calculate_solar_energy_cost_def
      calculate_water_cost_def calculate_infrastructure_cost_def calculate_electrolyzer_cost_def)

lemma mumbai_total: "total_lcoh (calculate_lcoh_for_hexagon mumbai_cell) = 151.45"
  unfolding lcoh_fields mumbai_unrounded py_round_def round_half_even_def Let_def
  by simp

lemma mumbai_components:
  "wind_cost (calculate_lcoh_for_hexagon mumbai_cell) = 135"
  "solar_cost (calculate_lcoh_for_hexagon mumbai_cell) = 159.09"
  "water_cost (calculate_lcoh_for_hexagon mumbai_cell) = 0.5"
  "infrastructure_cost (calculate_lcoh_for_hexagon mumbai_cell) = 0.3"
  "electrolyzer_cost (calculate_lcoh_for_hexagon mumbai_cell) = 1.2"
  "transport_cost (calculate_lcoh_for_hexagon mumbai_cell) = 0"
proof -
  show "wind_cost (calculate_lcoh_for_hexagon mumbai_cell) = 135"
    unfolding lcoh_fields mumbai_cell_attributes
    using py_round_exact [of 13500 2] by (simp add: calculate_wind_energy_cost_def)
  show "solar_cost (calculate_lcoh_for_hexagon mumbai_cell) = 159.09"
    unfolding lcoh_fields mumbai_cell_attributes
    by (simp add: calculate_solar_energy_cost_def py_round_def round_half_even_def Let_def)
  show "water_cost (calculate_lcoh_for_hexagon mumbai_cell) = 0.5"
    unfolding lcoh_fields mumbai_cell_attributes by (simp add: calculate_water_cost_def)
  show "infrastructure_cost (calculate_lcoh_for_hexagon mumbai_cell) = 0.3"
    unfolding lcoh_fields mumbai_cell_attributes by (simp add: calculate_infrastructure_cost_def)
  show "electrolyzer_cost (calculate_lcoh_for_hexagon mumbai_cell) = 1.2"
    unfolding lcoh_fields by (simp add: calculate_electrolyzer_cost_def)
  show "transport_cost (calculate_lcoh_for_hexagon mumbai_cell) = 0"
    unfolding lcoh_fields mumbai_cell_attributes
    using transport_mumbai py_round_exact [of 0 2] by simp
qed

lemma mumbai_weighted_sum:
  "weighted_component_sum (calculate_lcoh_for_hexagon mumbai_cell) = 151.454"
  unfolding weighted_component_sum_def mumbai_components by simp

subsection \<open>Cells and log of the second generator\<close>







subsection \<open>The score outside the costs the scorer can produce\<close>

text \<open>
  The bound of 100 on the suitability score rests on the total cost: the scorer's total
  always exceeds 6 (the wind term alone is above 51), so the step function is at 40. Fed
  a total of 3.0, which the scorer cannot produce, together with the largest wind and
  solar potentials of the generator, the formula gives 106.6.
\<close>

lemma suitability_above_100_for_unreachable_cost:
  "calculate_suitability_score 3.0 8.58 7.18 = 106.6"
  unfolding calculate_suitability_score_def Let_def
  by (simp add: py_round_def round_half_even_def Let_def)

section \<open>The stored total and the stored components\<close>

text \<open>
  C1, as stated: for every scored cell the stored \<open>total_lcoh\<close> equals the weighted sum
  \<open>0.4 * wind_cost + 0.6 * solar_cost + water_cost + infrastructure_cost +
  electrolyzer_cost + transport_cost\<close> of the six stored components, to the tolerance
  \<open>1e-9\<close>. This fails. \<open>calculate_lcoh_for_hexagon\<close> rounds the total and each component
  to two decimals separately, the total from the unrounded components. For the cell at
  Mumbai the stored total is 151.45 while the stored components sum to 151.454.
\<close>

theorem total_lcoh_stored_sum_counterexample:
  "total_lcoh (calculate_lcoh_for_hexagon mumbai_cell) = 151.45 \<and>
   weighted_component_sum (calculate_lcoh_for_hexagon mumbai_cell) = 151.454 \<and>
   \<not> \<bar>total_lcoh (calculate_lcoh_for_hexagon mumbai_cell) -
       weighted_component_sum (calculate_lcoh_for_hexagon mumbai_cell)\<bar> \<le> 1 / 10 ^ 9"
  unfolding mumbai_total mumbai_weighted_sum by simp

text \<open>
  C1, amended: for every scored cell the stored \<open>total_lcoh\<close> is the weighted sum of the
  unrounded components, rounded to two decimals, and it differs from the weighted sum of
  the six stored components by at most 0.015.
\<close>

theorem total_lcoh_within_rounding:
  "total_lcoh (calculate_lcoh_for_hexagon h) = py_round (unrounded_total_lcoh h) 2 \<and>
   \<bar>total_lcoh (calculate_lcoh_for_hexagon h) -
    weighted_component_sum (calculate_lcoh_for_hexagon h)\<bar> \<le> 0.015"
proof -
  define w where "w = calculate_wind_energy_cost (wind_potential h) (elevation h)"
  define s where "s = calculate_solar_energy_cost (solar_potential h)"
  define t where "t = calculate_transport_cost (center_lat h) (center_lon h)"
  define c where "c = calculate_water_cost (water_availability h) +
     calculate_infrastructure_cost (infrastructure_score h) + calculate_electrolyzer_cost"
  have u: "unrounded_total_lcoh h = w * 0.4 + s * 0.6 + c + t"
    unfolding unrounded_total_lcoh_def w_def s_def t_def c_def by simp
  have e1: "\<bar>py_round (unrounded_total_lcoh h) 2 - unrounded_total_lcoh h\<bar> \<le> 0.005"
    using py_round_error [of "unrounded_total_lcoh h" 2] by simp
  have e2: "\<bar>py_round w 2 - w\<bar> \<le> 0.005" using py_round_error [of w 2] by simp
  have e3: "\<bar>py_round s 2 - s\<bar> \<le> 0.005" using py_round_error [of s 2] by simp
  have e4: "\<bar>py_round t 2 - t\<bar> \<le> 0.005" using py_round_error [of t 2] by simp
  have "\<bar>py_round (unrounded_total_lcoh h) 2 -
         (0.4 * py_round w 2 + 0.6 * py_round s 2 + c + py_round t 2)\<bar> \<le> 0.015"
    using e1 e2 e3 e4 unfolding u by linarith
  then show ?thesis
    unfolding weighted_component_sum_def lcoh_fields w_def s_def t_def c_def
    by (simp add: add.assoc)
qed

theorem total_lcoh_within_rounding_witness:
  "total_lcoh (calculate_lcoh_for_hexagon mumbai_cell) = 151.45 \<and>
   py_round (unrounded_total_lcoh mumbai_cell) 2 = 151.45 \<and>
   weighted_component_sum (calculate_lcoh_for_hexagon mumbai_cell) = 151.454 \<and>
   \<bar>total_lcoh (calculate_lcoh_for_hexagon mumbai_cell) -
    weighted_component_sum (calculate_lcoh_for_hexagon mumbai_cell)\<bar> \<le> 0.015"
  using total_lcoh_within_rounding [of mumbai_cell] mumbai_total mumbai_weighted_sum
  by simp

section \<open>The wind cost\<close>

text \<open>
  C8. For every wind potential and elevation, \<open>calculate_wind_energy_cost\<close> is 45.0
  divided by the capacity factor of the thresholds (at least 6.0: 0.35, at least 5.0:
  0.28, at least 4.0: 0.20, otherwise 0.12), times \<open>1.0 + (elevation / 1000.0) * 0.1\<close>.
  At wind potential 6.0 and elevation 0 it is \<open>45.0 / 0.35\<close>, which is 128.57 to two
  decimals.
\<close>

theorem calculate_wind_energy_cost_formula:
  "calculate_wind_energy_cost wind elev = wind_cost_spec wind elev \<and>
   calculate_wind_energy_cost 6.0 0 = 45.0 / 0.35 \<and>
   \<bar>calculate_wind_energy_cost 6.0 0 - 128.57\<bar> < 0.005"
  unfolding calculate_wind_energy_cost_def wind_cost_spec_def wind_capacity_factor_spec_def Let_def
  by simp

theorem calculate_wind_energy_cost_formula_witness:
  "calculate_wind_energy_cost 5.5 500 = 168.75 \<and> wind_cost_spec 5.5 500 = 168.75"
  using calculate_wind_energy_cost_formula [of "5.5" 500]
  by (simp add: wind_cost_spec_def wind_capacity_factor_spec_def)

section \<open>The water cost\<close>

text \<open>
  C10. \<open>calculate_water_cost\<close> is total on strings: it returns one of 0.5, 1.2 and 2.5;
  0.5 exactly for \<open>"High"\<close>, 1.2 exactly for \<open>"Medium"\<close>, and 2.5 for every other string.
\<close>

theorem calculate_water_cost_total:
  "calculate_water_cost s \<in> {0.5, 1.2, 2.5} \<and>
   (calculate_water_cost s = 0.5 \<longleftrightarrow> s = ''High'') \<and>
   (calculate_water_cost s = 1.2 \<longleftrightarrow> s = ''Medium'') \<and>
   (s \<noteq> ''High'' \<and> s \<noteq> ''Medium'' \<longrightarrow> calculate_water_cost s = 2.5)"
  by (simp add: calculate_water_cost_def)

theorem calculate_water_cost_total_witness:
  "calculate_water_cost ''Hihg'' \<in> {0.5, 1.2, 2.5} \<and>
   calculate_water_cost ''Hihg'' \<noteq> 0.5 \<and>
   calculate_water_cost ''Hihg'' \<noteq> 1.2 \<and>
   calculate_water_cost ''Hihg'' = 2.5"
  using calculate_water_cost_total [of "''Hihg''"] by simp

section \<open>The suitability score\<close>

text \<open>
  C7. With the wind and solar potential fixed, a lower total cost never gives a lower
  suitability score: the step function of the cost does not increase with the cost,
  and neither does the score.
\<close>

theorem suitability_monotone_in_lcoh:
  "lcoh1 \<le> lcoh2 \<Longrightarrow>
   lcoh_score_spec lcoh2 \<le> lcoh_score_spec lcoh1 \<and>
   calculate_suitability_score lcoh2 wind solar \<le> calculate_suitability_score lcoh1 wind solar"
  using lcoh_score_spec_antimono calculate_suitability_score_mono by simp

theorem suitability_monotone_in_lcoh_witness:
  "(2.5 :: real) \<le> 6.5 \<and>
   calculate_suitability_score 6.5 5.5 7.18 \<le> calculate_suitability_score 2.5 5.5 7.18"
  using suitability_monotone_in_lcoh [of "2.5" "6.5" "5.5" "7.18"] by simp



section \<open>The grid of the generator\<close>

text \<open>
  C9. Within one run of \<open>create_india_hexagons\<close> the ids are the positions of the cells
  in the output, 0, 1, 2, ..., so no two cells share an id; and the cells are the grid
  points in row-major order, the latitudes in the outer loop and the longitudes in the
  inner one.
\<close>

theorem create_india_hexagons_ids:
  assumes "create_india_hexagons resolution_km = Inr hs"
  shows "map hex_id hs = [0 ..< length hs] \<and>
         distinct (map hex_id hs) \<and>
         (\<exists>lats lons. india_lats resolution_km = Inr lats \<and>
                       india_lons resolution_km = Inr lons \<and>
                       map (\<lambda>h. (center_lat h, center_lon h)) hs = row_major lats lons)"
proof -
  from assms obtain lats lons
    where l: "india_lats resolution_km = Inr lats" "india_lons resolution_km = Inr lons"
      and hs: "hs = numbered_cells (resolution_km / 111) 0 (row_major lats lons)"
    unfolding create_india_hexagons_eq by (auto split: sum.splits)
  have ids: "map hex_id hs = [0 ..< length hs]"
    unfolding hs by (simp add: map_hex_id_numbered length_numbered_cells)
  have "distinct [0 ..< length hs]" by simp
  then have "distinct (map hex_id hs)" unfolding ids .
  moreover have "map (\<lambda>h. (center_lat h, center_lon h)) hs = row_major lats lons"
    unfolding hs by (rule map_center_numbered)
  ultimately show ?thesis using ids l by blast
qed

theorem create_india_hexagons_ids_witness:
  "\<exists>hs. create_india_hexagons 50 = Inr hs \<and> hs \<noteq> [] \<and>
     map hex_id hs = [0 ..< length hs] \<and> distinct (map hex_id hs)"
proof -
  from create_india_hexagons_first [of 50] obtain rest
    where c: "create_india_hexagons 50 = Inr (hexagon_data 0 6 68 (50 / 111) # rest)"
    by auto
  from create_india_hexagons_ids [OF c] c show ?thesis by blast
qed

text \<open>
  C5, as stated: at 50 km the latitude step is about 0.4505 degrees, the first cell is
  centred at (6.0, 68.0) and its wind potential is \<open>round(4.0 * 1.0 * 1.0, 2) = 4.0\<close>.
  The last part fails: the first cell lies exactly 2.0 degrees from the reference
  latitude 8.0, which is not below 2.0 but is below 5.0, so the base value is 5.5.
\<close>

theorem first_cell_wind_potential_counterexample:
  "\<exists>hs. create_india_hexagons 50 = Inr hs \<and> hs \<noteq> [] \<and> wind_potential (hd hs) \<noteq> 4.0"
proof -
  from create_india_hexagons_first [of 50] obtain rest
    where c: "create_india_hexagons 50 = Inr (hexagon_data 0 6 68 (50 / 111) # rest)"
    by auto
  have "wind_potential (hexagon_data 0 6 68 (50 / 111)) \<noteq> 4.0"
    unfolding hexagon_data_def using wind_potential_first by simp
  with c show ?thesis by simp
qed

text \<open>
  C5, amended: at 50 km there are 70 grid latitudes, spaced by a step within 0.0001 of
  0.4505 degrees; the first cell is centred at (6.0, 68.0) and its wind potential is
  \<open>round(5.5 * 1.0 * 1.0, 2) = 5.5\<close>.
\<close>

theorem first_cell_example:
  "\<exists>lats hs. india_lats 50 = Inr lats \<and> length lats = 70 \<and>
     \<bar>(lats ! 1 - lats ! 0) - 0.4505\<bar> < 0.0001 \<and>
     create_india_hexagons 50 = Inr hs \<and> hs \<noteq> [] \<and>
     center_lat (hd hs) = 6.0 \<and> center_lon (hd hs) = 68.0 \<and>
     wind_potential (hd hs) = py_round (5.5 * 1.0 * 1.0) 2 \<and>
     wind_potential (hd hs) = 5.5"
proof -
  define lats where "lats = map (\<lambda>i. 6 + real i * (50 / 111)) [0 ..< 70]"
  have l: "india_lats 50 = Inr lats" unfolding lats_def by (rule india_lats_50)
  have len: "length lats = 70" unfolding lats_def by simp
  have "lats ! 1 - lats ! 0 = 50 / 111" unfolding lats_def by simp
  then have step: "\<bar>(lats ! 1 - lats ! 0) - 0.4505\<bar> < 0.0001" by simp
  from create_india_hexagons_first [of 50] obtain rest
    where c: "create_india_hexagons 50 = Inr (hexagon_data 0 6 68 (50 / 111) # rest)"
    by auto
  have w: "wind_potential (hexagon_data 0 6 68 (50 / 111)) = 5.5"
    unfolding hexagon_data_def using wind_potential_first by simp
  have r: "py_round (5.5 * 1.0 * 1.0) 2 = 5.5" using py_round_exact [of 550 2] by simp
  have "center_lat (hexagon_data 0 6 68 (50 / 111)) = 6.0"
    "center_lon (hexagon_data 0 6 68 (50 / 111)) = 68.0"
    unfolding hexagon_data_def by simp_all
  with l len step c w r show ?thesis by auto
qed



section \<open>The rings of the generated hexagons\<close>

text \<open>
  C2 asks for a boundary of 7 vertices in every generated cell, the last one repeating
  the first. \<open>create_india_hexagons\<close> does not deliver it: \<open>create_hexagon\<close> returns the
  6 vertices and never closes the ring, so every cell has a boundary of 6 vertices whose
  last vertex differs from the first, and \<open>boundary[6]\<close> does not exist. The second
  generator does close its rings (\<open>closed_hex_coords_ring\<close> above).
\<close>

theorem create_india_hexagons_ring_open:
  assumes "create_india_hexagons resolution_km = Inr hs" and "h \<in> set hs"
  shows "length (coordinates h) = 6 \<and> hd (coordinates h) \<noteq> last (coordinates h)"
proof -
  from create_india_hexagons_member [OF assms] obtain j lat lon
    where h: "h = hexagon_data j lat lon (resolution_km / 111)" by blast
  have "resolution_km \<noteq> 0"
    using assms(1) create_india_hexagons_zero by auto
  then have r: "resolution_km / 111 / 2 \<noteq> 0" by simp
  have c: "coordinates h = create_hexagon lat lon (resolution_km / 111 / 2)"
    unfolding h hexagon_data_def by simp
  show ?thesis unfolding c using length_create_hexagon create_hexagon_open [OF r] by simp
qed

theorem create_india_hexagons_ring_open_witness:
  "\<exists>rest. create_india_hexagons 50 = Inr (hexagon_data 0 6 68 (50 / 111) # rest) \<and>
     length (coordinates (hexagon_data 0 6 68 (50 / 111))) = 6 \<and>
     hd (coordinates (hexagon_data 0 6 68 (50 / 111))) \<noteq>
       last (coordinates (hexagon_data 0 6 68 (50 / 111)))"
proof -
  from create_india_hexagons_first [of 50] obtain rest
    where c: "create_india_hexagons 50 = Inr (hexagon_data 0 6 68 (50 / 111) # rest)"
    by auto
  have "hexagon_data 0 6 68 (50 / 111) \<in> set (hexagon_data 0 6 68 (50 / 111) # rest)"
    by simp
  from create_india_hexagons_ring_open [OF c this] c show ?thesis by simp
qed

section \<open>Validation of the polygons\<close>





end
